theory Spec2Isabelle
  imports Complex_Main
begin

section \<open>Alert routes of the disaster-management backend\<close>

text \<open>
  A shallow embedding of the Express router for \<^verbatim>\<open>/api/alerts\<close>
  (source file \<^verbatim>\<open>src/unnamed/part_001\<close>). The router talks to a MongoDB collection
  through Mongoose; the collection is modelled as the list of its documents in insertion
  order, and each Mongoose call the handlers make is a function on that list.
  Instants are milliseconds since the epoch (\<open>int\<close>), JavaScript numbers are doubles
  (the reals that are doubles, \<open>NaN\<close> and the two infinities), object ids are natural
  numbers.
\<close>

subsection \<open>Documents\<close>

text \<open>
  The \<^verbatim>\<open>location\<close> sub-document the handlers build: a GeoJSON point
  \<^verbatim>\<open>[longitude, latitude]\<close> with free-text address parts and a radius in kilometres.
  A key whose value is \<^verbatim>\<open>undefined\<close> is \<open>None\<close>.
\<close>

record location =
  coordinates :: "(real \<times> real) option"
  address :: "string option"
  city :: "string option"
  state :: "string option"
  country :: "string option"
  radius :: "real option"

text \<open>
  An alert document. The schema file (\<^verbatim>\<open>models/Alert\<close>) is not part of the sources;
  the fields are the ones the router and the dashboard read or write. \<open>alert_id\<close> is
  the document's \<^verbatim>\<open>_id\<close> and \<open>views\<close> is \<^verbatim>\<open>statistics.views\<close>. Type, severity and
  status are stored as strings: the handlers compare them with query-string values and the
  dashboard calls \<^verbatim>\<open>alert.severity.toUpperCase()\<close>.
\<close>

record alert =
  alert_id :: nat
  title :: string
  description :: string
  type :: string
  severity :: string
  status :: string
  location :: location
  validFrom :: int
  validUntil :: int
  isPublic :: bool
  createdBy :: nat
  updatedBy :: "nat option"
  views :: nat
  createdAt :: int

type_synonym store = "alert list"

text \<open>
  The system clock. \<open>clk k\<close> is the instant returned by the \<open>k\<close>-th read of the clock
  (\<^verbatim>\<open>new Date()\<close> or \<^verbatim>\<open>Date.now()\<close>) that a handler performs while serving one request,
  counted from 0 in program order.
\<close>

type_synonym clock = "nat \<Rightarrow> int"

datatype http_error = Forbidden | BadRequest | NotFound | ServerError

subsection \<open>JavaScript numbers\<close>

text \<open>
  A JavaScript number is an IEEE 754 double: \<open>Num x\<close> is the finite double whose value
  is the real \<open>x\<close>. The sign of zero is not tracked (\<open>Num 0\<close> stands for both zeros).
  \<open>fl x\<close> is the double nearest to the real \<open>x\<close>, ties going to the even
  significand: 53 significant bits, the least exponent -1022 (below it the spacing stays
  \<open>2 powi - 1074\<close>), and an infinity from \<open>2 ^ 1024\<close> on. Every conversion of a
  string and every arithmetic operation rounds its exact result with \<open>fl\<close>.
\<close>

datatype jsnum = Num real | NaN | PosInf | NegInf

definition round_even :: "real \<Rightarrow> int" where
  "round_even q =
     (let f = \<lfloor>q\<rfloor>
      in if q - of_int f < 1 / 2 then f
         else if 1 / 2 < q - of_int f then f + 1
         else if even f then f else f + 1)"

definition fl :: "real \<Rightarrow> jsnum" where
  "fl x =
     (if x = 0 then Num 0
      else
        (let e = max \<lfloor>log 2 \<bar>x\<bar>\<rfloor> (- 1022);
             u = 2 powi (e - 52);
             y = of_int (round_even (\<bar>x\<bar> / u)) * u
         in if 2 ^ 1024 \<le> y then (if 0 < x then PosInf else NegInf)
            else Num (if 0 < x then y else - y)))"

fun js_sub :: "jsnum \<Rightarrow> jsnum \<Rightarrow> jsnum" where
  "js_sub (Num a) (Num b) = fl (a - b)"
| "js_sub NaN _ = NaN"
| "js_sub _ NaN = NaN"
| "js_sub PosInf PosInf = NaN"
| "js_sub NegInf NegInf = NaN"
| "js_sub PosInf _ = PosInf"
| "js_sub NegInf _ = NegInf"
| "js_sub _ PosInf = NegInf"
| "js_sub _ NegInf = PosInf"

definition js_sign :: "jsnum \<Rightarrow> int" where
  "js_sign n =
     (case n of
        Num x \<Rightarrow> (if x < 0 then - 1 else if x = 0 then 0 else 1)
      | PosInf \<Rightarrow> 1
      | NegInf \<Rightarrow> - 1
      | NaN \<Rightarrow> 0)"

fun js_mul :: "jsnum \<Rightarrow> jsnum \<Rightarrow> jsnum" where
  "js_mul (Num a) (Num b) = fl (a * b)"
| "js_mul NaN _ = NaN"
| "js_mul _ NaN = NaN"
| "js_mul a b =
     (if js_sign a * js_sign b = 0 then NaN
      else if js_sign a * js_sign b > 0 then PosInf else NegInf)"

text \<open>Division; a zero divisor counts as \<open>+0\<close>.\<close>

fun js_div :: "jsnum \<Rightarrow> jsnum \<Rightarrow> jsnum" where
  "js_div (Num a) (Num b) =
     (if b = 0 then (if a = 0 then NaN else if a > 0 then PosInf else NegInf)
      else fl (a / b))"
| "js_div NaN _ = NaN"
| "js_div _ NaN = NaN"
| "js_div (Num a) _ = Num 0"
| "js_div PosInf (Num b) = (if b \<ge> 0 then PosInf else NegInf)"
| "js_div NegInf (Num b) = (if b \<ge> 0 then NegInf else PosInf)"
| "js_div _ _ = NaN"

text \<open>\<^verbatim>\<open>Math.ceil\<close>; the ceiling of a double is a double.\<close>

fun js_ceil :: "jsnum \<Rightarrow> jsnum" where
  "js_ceil (Num a) = Num (of_int \<lceil>a\<rceil>)"
| "js_ceil n = n"

subsection \<open>Strings of the query string as numbers\<close>

text \<open>
  A destructured query parameter is either the string Express parsed or, when the key is
  absent, the numeric default written in the handler. Strings are ASCII.
\<close>

datatype jsval = Str string | Number jsnum

definition truthy :: "string option \<Rightarrow> bool" where
  "truthy v = (case v of None \<Rightarrow> False | Some s \<Rightarrow> s \<noteq> [])"

text \<open>The value of a digit \<^verbatim>\<open>0-9\<close>, \<^verbatim>\<open>a-f\<close>, \<^verbatim>\<open>A-F\<close>; 16 for any other character.\<close>

definition digit_val :: "char \<Rightarrow> nat" where
  "digit_val c =
     (let n = (of_char c :: nat)
      in if 48 \<le> n \<and> n \<le> 57 then n - 48
         else if 97 \<le> n \<and> n \<le> 102 then n - 87
         else if 65 \<le> n \<and> n \<le> 70 then n - 55
         else 16)"

definition is_digit_of :: "nat \<Rightarrow> char \<Rightarrow> bool" where
  "is_digit_of r c = (digit_val c < r)"

definition is_digit :: "char \<Rightarrow> bool" where
  "is_digit c = is_digit_of 10 c"

definition is_space :: "char \<Rightarrow> bool" where
  "is_space c = ((of_char c :: nat) = 32 \<or> (9 \<le> (of_char c :: nat) \<and> (of_char c :: nat) \<le> 13))"

fun radix_val :: "nat \<Rightarrow> nat \<Rightarrow> string \<Rightarrow> nat" where
  "radix_val r acc [] = acc"
| "radix_val r acc (c # cs) = radix_val r (r * acc + digit_val c) cs"

text \<open>
  The digits of a decimal literal, \<^verbatim>\<open>ddd\<close>, \<^verbatim>\<open>ddd.\<close>, \<^verbatim>\<open>ddd.ddd\<close> or \<^verbatim>\<open>.ddd\<close>, with the
  rest of the string.
\<close>

definition mantissa :: "string \<Rightarrow> (real \<times> string) option" where
  "mantissa s =
     (let ip = takeWhile is_digit s; r1 = dropWhile is_digit s
      in case r1 of
           c # r2 \<Rightarrow>
             if c = CHR ''.'' then
               (let fp = takeWhile is_digit r2; r3 = dropWhile is_digit r2
                in if ip = [] \<and> fp = [] then None
                   else Some (real (radix_val 10 0 ip) + real (radix_val 10 0 fp) / 10 ^ length fp, r3))
             else if ip = [] then None else Some (real (radix_val 10 0 ip), r1)
         | [] \<Rightarrow> if ip = [] then None else Some (real (radix_val 10 0 ip), []))"

text \<open>
  An exponent part \<^verbatim>\<open>e\<close> or \<^verbatim>\<open>E\<close>, an optional sign and at least one digit; when the
  string does not start with one, the exponent is 0 and nothing is consumed.
\<close>

definition exponent_part :: "string \<Rightarrow> int \<times> string" where
  "exponent_part s =
     (case s of
        c # r \<Rightarrow>
          if c = CHR ''e'' \<or> c = CHR ''E'' then
            (let neg = (r \<noteq> [] \<and> hd r = CHR ''-'');
                 u = (if r \<noteq> [] \<and> (hd r = CHR ''-'' \<or> hd r = CHR ''+'') then tl r else r);
                 ds = takeWhile is_digit u
             in if ds = [] then (0, s)
                else (if neg then - int (radix_val 10 0 ds) else int (radix_val 10 0 ds),
                      dropWhile is_digit u))
          else (0, s)
      | [] \<Rightarrow> (0, []))"

datatype magnitude = Finite real | Infinite

definition unsigned_literal :: "string \<Rightarrow> (magnitude \<times> string) option" where
  "unsigned_literal s =
     (if take 8 s = ''Infinity'' then Some (Infinite, drop 8 s)
      else case mantissa s of
             None \<Rightarrow> None
           | Some (m, r) \<Rightarrow>
               (case exponent_part r of (e, r') \<Rightarrow> Some (Finite (m * 10 powi e), r')))"

text \<open>A sign (\<open>True\<close> for minus), the magnitude and the rest of the string.\<close>

definition signed_literal :: "string \<Rightarrow> (bool \<times> magnitude \<times> string) option" where
  "signed_literal s =
     (case s of
        c # r \<Rightarrow>
          if c = CHR ''-'' then map_option (Pair True) (unsigned_literal r)
          else if c = CHR ''+'' then map_option (Pair False) (unsigned_literal r)
          else map_option (Pair False) (unsigned_literal s)
      | [] \<Rightarrow> None)"

definition to_double :: "bool \<Rightarrow> magnitude \<Rightarrow> jsnum" where
  "to_double neg m =
     (case m of
        Infinite \<Rightarrow> (if neg then NegInf else PosInf)
      | Finite x \<Rightarrow> fl (if neg then - x else x))"

text \<open>\<^verbatim>\<open>parseFloat\<close>: leading white space is skipped, the longest decimal prefix is read.\<close>

definition parseFloat :: "jsval \<Rightarrow> jsnum" where
  "parseFloat v =
     (case v of
        Number n \<Rightarrow> n
      | Str s \<Rightarrow> (case signed_literal (dropWhile is_space s) of
                   None \<Rightarrow> NaN | Some (neg, m, _) \<Rightarrow> to_double neg m))"

definition trim :: "string \<Rightarrow> string" where
  "trim s = rev (dropWhile is_space (rev (dropWhile is_space s)))"

text \<open>
  An unsigned literal \<^verbatim>\<open>0x..\<close>, \<^verbatim>\<open>0o..\<close> or \<^verbatim>\<open>0b..\<close> with at least one digit and only
  digits of its radix.
\<close>

definition radix_of :: "char \<Rightarrow> nat" where
  "radix_of c =
     (if c = CHR ''x'' \<or> c = CHR ''X'' then 16
      else if c = CHR ''o'' \<or> c = CHR ''O'' then 8
      else if c = CHR ''b'' \<or> c = CHR ''B'' then 2
      else 0)"

definition radix_literal :: "string \<Rightarrow> nat option" where
  "radix_literal s =
     (case s of
        c0 # c1 # ds \<Rightarrow>
          if c0 = CHR ''0'' \<and> ds \<noteq> [] \<and> list_all (is_digit_of (radix_of c1)) ds
          then Some (radix_val (radix_of c1) 0 ds)
          else None
      | _ \<Rightarrow> None)"

text \<open>
  \<^verbatim>\<open>ToNumber\<close>, the conversion behind \<^verbatim>\<open>limit * 1\<close>, \<^verbatim>\<open>page - 1\<close> and \<^verbatim>\<open>total / limit\<close>:
  the whole trimmed string must be a literal, and the empty string is 0.
\<close>

definition to_number :: "jsval \<Rightarrow> jsnum" where
  "to_number v =
     (case v of
        Number n \<Rightarrow> n
      | Str s \<Rightarrow>
          (let t = trim s
           in if t = [] then Num 0
              else case radix_literal t of
                     Some n \<Rightarrow> fl (real n)
                   | None \<Rightarrow>
                       (case signed_literal t of
                          Some (neg, m, []) \<Rightarrow> to_double neg m
                        | _ \<Rightarrow> NaN)))"

text \<open>
  \<^verbatim>\<open>parseInt\<close> without a radix: white space, a sign, a prefix \<^verbatim>\<open>0x\<close> or \<^verbatim>\<open>0X\<close> for
  radix 16, then the longest run of digits of the radix. A number is first written as a
  string; for the numeric default this is its integer part.
\<close>

definition parseInt :: "jsval \<Rightarrow> jsnum" where
  "parseInt v =
     (case v of
        Number (Num x) \<Rightarrow> Num (of_int (if x < 0 then \<lceil>x\<rceil> else \<lfloor>x\<rfloor>))
      | Number _ \<Rightarrow> NaN
      | Str s \<Rightarrow>
          (let t = dropWhile is_space s;
               neg = (t \<noteq> [] \<and> hd t = CHR ''-'');
               u = (if t \<noteq> [] \<and> (hd t = CHR ''-'' \<or> hd t = CHR ''+'') then tl t else t);
               hex = (take 2 u = ''0x'' \<or> take 2 u = ''0X'');
               r = (if hex then 16 else 10);
               ds = takeWhile (is_digit_of r) (if hex then drop 2 u else u)
           in if ds = [] then NaN
              else fl (if neg then - real (radix_val r 0 ds) else real (radix_val r 0 ds))))"

subsection \<open>The MongoDB operations the handlers use\<close>

text \<open>
  Strings are ordered as MongoDB orders them under the default (simple) collation:
  lexicographically by character code. \<open>str_cmp\<close> is negative, zero or positive.
\<close>

fun str_cmp :: "string \<Rightarrow> string \<Rightarrow> int" where
  "str_cmp [] [] = 0"
| "str_cmp [] (y # ys) = - 1"
| "str_cmp (x # xs) [] = 1"
| "str_cmp (x # xs) (y # ys) =
     (if (of_char x :: nat) < of_char y then - 1
      else if (of_char y :: nat) < of_char x then 1
      else str_cmp xs ys)"

definition int_cmp :: "int \<Rightarrow> int \<Rightarrow> int" where
  "int_cmp a b = (if a < b then - 1 else if b < a then 1 else 0)"

text \<open>
  Comparison of two documents on one path. Paths other than the ones listed do not order
  the documents in this model.
\<close>

definition field_cmp :: "string \<Rightarrow> alert \<Rightarrow> alert \<Rightarrow> int" where
  "field_cmp f a b =
     (if f = ''createdAt'' then int_cmp (createdAt a) (createdAt b)
      else if f = ''validFrom'' then int_cmp (validFrom a) (validFrom b)
      else if f = ''validUntil'' then int_cmp (validUntil a) (validUntil b)
      else if f = ''severity'' then str_cmp (severity a) (severity b)
      else if f = ''type'' then str_cmp (type a) (type b)
      else if f = ''status'' then str_cmp (status a) (status b)
      else if f = ''title'' then str_cmp (title a) (title b)
      else if f = ''_id'' then int_cmp (int (alert_id a)) (int (alert_id b))
      else 0)"

text \<open>A sort specification: paths with direction 1 (ascending) or -1 (descending).\<close>

type_synonym sort_spec = "(string \<times> int) list"

fun spec_cmp :: "sort_spec \<Rightarrow> alert \<Rightarrow> alert \<Rightarrow> int" where
  "spec_cmp [] a b = 0"
| "spec_cmp ((f, d) # ks) a b =
     (if field_cmp f a b = 0 then spec_cmp ks a b else d * field_cmp f a b)"

fun insort_by :: "('a \<Rightarrow> 'a \<Rightarrow> bool) \<Rightarrow> 'a \<Rightarrow> 'a list \<Rightarrow> 'a list" where
  "insort_by le x [] = [x]"
| "insort_by le x (y # ys) = (if le x y then x # y # ys else y # insort_by le x ys)"

text \<open>Documents that compare equal keep their stored order.\<close>

definition mongo_sort :: "sort_spec \<Rightarrow> alert list \<Rightarrow> alert list" where
  "mongo_sort ks xs = foldr (insort_by (\<lambda>a b. spec_cmp ks a b \<le> 0)) xs []"

text \<open>
  Mongoose's string form of a sort: path names separated by single spaces, a leading
  \<^verbatim>\<open>-\<close> for descending order. An empty path name (from an empty string, a space at
  either end, two spaces in a row or a lone \<^verbatim>\<open>-\<close>) is not a field, and the query fails.
\<close>

fun split_on_space :: "string \<Rightarrow> string \<Rightarrow> string list" where
  "split_on_space cur [] = [rev cur]"
| "split_on_space cur (c # cs) =
     (if c = CHR '' '' then rev cur # split_on_space [] cs else split_on_space (c # cur) cs)"

definition sort_key :: "string \<Rightarrow> string \<times> int" where
  "sort_key w = (if w \<noteq> [] \<and> hd w = CHR ''-'' then (tl w, - 1) else (w, 1))"

definition parse_sort :: "string \<Rightarrow> sort_spec option" where
  "parse_sort s =
     (let ks = map sort_key (split_on_space [] s)
      in if list_ex (\<lambda>k. fst k = []) ks then None else Some ks)"

text \<open>
  Great-circle geometry on the unit sphere: the central angle between two
  \<^verbatim>\<open>[longitude, latitude]\<close> points given in degrees, by the haversine formula.
\<close>

definition radians :: "real \<Rightarrow> real" where
  "radians d = d * pi / 180"

definition central_angle :: "real \<times> real \<Rightarrow> real \<times> real \<Rightarrow> real" where
  "central_angle p q =
     2 * arcsin (sqrt ((sin (radians (snd q - snd p) / 2))\<^sup>2
                       + cos (radians (snd p)) * cos (radians (snd q))
                         * (sin (radians (fst q - fst p) / 2))\<^sup>2))"

text \<open>
  A query condition \<^verbatim>\<open>{$geoWithin: {$centerSphere: [[x, y], r]}}\<close>. MongoDB
  documents it as the spherical cap of angular radius \<open>r\<close> (in radians) around the
  centre; the server rejects a centre that is not a longitude/latitude pair and a radius
  that is not a non-negative number. The server computes the angle in doubles; the model
  takes it as the real number, so it decides containment only where that does not hinge on
  the server's rounding.
\<close>

type_synonym center_sphere = "jsnum \<times> jsnum \<times> jsnum"

definition center_sphere_ok :: "center_sphere \<Rightarrow> bool" where
  "center_sphere_ok g =
     (case g of
        (Num x, Num y, Num r) \<Rightarrow> - 180 \<le> x \<and> x \<le> 180 \<and> - 90 \<le> y \<and> y \<le> 90 \<and> 0 \<le> r
      | _ \<Rightarrow> False)"

definition geo_within :: "center_sphere \<Rightarrow> location \<Rightarrow> bool" where
  "geo_within g l =
     (case (g, coordinates l) of
        ((Num x, Num y, Num r), Some p) \<Rightarrow> central_angle (x, y) p \<le> r
      | _ \<Rightarrow> False)"

text \<open>
  The filter object of a \<^verbatim>\<open>find\<close>: a conjunction of the conditions that are present.
\<close>

record alert_filter =
  f_isPublic :: "bool option"
  f_type :: "string option"
  f_severity :: "string option"
  f_status :: "string option"
  f_validFrom_lte :: "int option"
  f_validUntil_gte :: "int option"
  f_location :: "center_sphere option"

definition matches :: "alert_filter \<Rightarrow> alert \<Rightarrow> bool" where
  "matches f a =
     ((case f_isPublic f of None \<Rightarrow> True | Some b \<Rightarrow> isPublic a = b)
      \<and> (case f_type f of None \<Rightarrow> True | Some t \<Rightarrow> type a = t)
      \<and> (case f_severity f of None \<Rightarrow> True | Some s \<Rightarrow> severity a = s)
      \<and> (case f_status f of None \<Rightarrow> True | Some s \<Rightarrow> status a = s)
      \<and> (case f_validFrom_lte f of None \<Rightarrow> True | Some t \<Rightarrow> validFrom a \<le> t)
      \<and> (case f_validUntil_gte f of None \<Rightarrow> True | Some t \<Rightarrow> t \<le> validUntil a)
      \<and> (case f_location f of None \<Rightarrow> True | Some g \<Rightarrow> geo_within g (location a)))"

datatype mongo_error = MongoError

text \<open>
  \<^verbatim>\<open>skip\<close>: a non-negative integer skips that many documents, a negative one is
  rejected by the server. \<^verbatim>\<open>limit\<close>: a positive integer caps the result, 0 means no
  limit, and the driver sends a negative limit as its absolute value. What a server does
  with a value that is not an integer depends on its version; the model rejects it.
\<close>

definition is_integer :: "real \<Rightarrow> bool" where
  "is_integer x = (of_int \<lfloor>x\<rfloor> = x)"

definition apply_skip :: "jsnum option \<Rightarrow> alert list \<Rightarrow> mongo_error + alert list" where
  "apply_skip s xs =
     (case s of
        None \<Rightarrow> Inr xs
      | Some (Num n) \<Rightarrow> if is_integer n \<and> 0 \<le> n then Inr (drop (nat \<lfloor>n\<rfloor>) xs) else Inl MongoError
      | Some _ \<Rightarrow> Inl MongoError)"

definition apply_limit :: "jsnum option \<Rightarrow> alert list \<Rightarrow> mongo_error + alert list" where
  "apply_limit l xs =
     (case l of
        None \<Rightarrow> Inr xs
      | Some (Num n) \<Rightarrow>
          if \<not> is_integer n then Inl MongoError
          else if n = 0 then Inr xs
          else Inr (take (nat \<lfloor>\<bar>n\<bar>\<rfloor>) xs)
      | Some _ \<Rightarrow> Inl MongoError)"

text \<open>
  \<^verbatim>\<open>Model.find(filter).sort(..).limit(..).skip(..).exec()\<close>: whatever the order of the
  builder calls, the server filters, sorts, skips and then limits.
\<close>

definition mongo_find ::
  "alert_filter \<Rightarrow> sort_spec \<Rightarrow> jsnum option \<Rightarrow> jsnum option \<Rightarrow> store \<Rightarrow> mongo_error + alert list" where
  "mongo_find f ks lmt skp db =
     (if (case f_location f of None \<Rightarrow> False | Some g \<Rightarrow> \<not> center_sphere_ok g) then Inl MongoError
      else case apply_skip skp (mongo_sort ks (filter (matches f) db)) of
             Inl e \<Rightarrow> Inl e
           | Inr xs \<Rightarrow> apply_limit lmt xs)"

definition countDocuments :: "alert_filter \<Rightarrow> store \<Rightarrow> mongo_error + nat" where
  "countDocuments f db =
     (if (case f_location f of None \<Rightarrow> False | Some g \<Rightarrow> \<not> center_sphere_ok g) then Inl MongoError
      else Inr (length (filter (matches f) db)))"

definition findById :: "nat \<Rightarrow> store \<Rightarrow> alert option" where
  "findById i db = find (\<lambda>a. alert_id a = i) db"

subsection \<open>GET /api/alerts\<close>

text \<open>
  The query string of the request: each parameter is the string the client sent, or
  absent. The nested forms Express can also parse (arrays and objects) are outside the
  model.
\<close>

record list_query =
  q_type :: "string option"
  q_severity :: "string option"
  q_status :: "string option"
  q_lat :: "string option"
  q_lng :: "string option"
  q_radius :: "string option"
  q_limit :: "string option"
  q_page :: "string option"
  q_sort :: "string option"

text \<open>Destructuring with a default: the default applies only when the key is absent.\<close>

definition with_default :: "string option \<Rightarrow> jsval \<Rightarrow> jsval" where
  "with_default v d = (case v of None \<Rightarrow> d | Some s \<Rightarrow> Str s)"

definition status_of :: "list_query \<Rightarrow> string" where
  "status_of q = (case q_status q of None \<Rightarrow> ''active'' | Some s \<Rightarrow> s)"

definition sort_of :: "list_query \<Rightarrow> string" where
  "sort_of q = (case q_sort q of None \<Rightarrow> ''-createdAt'' | Some s \<Rightarrow> s)"

text \<open>Lines 26 to 37: the filter object. The clock is read only for \<^verbatim>\<open>status === 'active'\<close>.\<close>

definition list_filter :: "clock \<Rightarrow> list_query \<Rightarrow> alert_filter" where
  "list_filter clk q =
     \<lparr> f_isPublic = Some True,
       f_type = (if truthy (q_type q) then q_type q else None),
       f_severity = (if truthy (q_severity q) then q_severity q else None),
       f_status = (if status_of q \<noteq> [] then Some (status_of q) else None),
       f_validFrom_lte = (if status_of q = ''active'' then Some (clk 0) else None),
       f_validUntil_gte = (if status_of q = ''active'' then Some (clk 0) else None),
       f_location = None \<rparr>"

text \<open>
  Lines 48 to 60: the spatial condition is added to the query that is being built, not to
  the filter object.
\<close>

definition list_conditions :: "clock \<Rightarrow> list_query \<Rightarrow> alert_filter" where
  "list_conditions clk q =
     (case (q_lat q, q_lng q) of
        (Some lat, Some lng) \<Rightarrow>
          if lat \<noteq> [] \<and> lng \<noteq> [] then
            (list_filter clk q)
              \<lparr> f_location :=
                  Some (parseFloat (Str lng), parseFloat (Str lat),
                        js_div (parseFloat (with_default (q_radius q) (Number (Num 50))))
                          (Num 6371)) \<rparr>
          else list_filter clk q
      | _ \<Rightarrow> list_filter clk q)"

record pagination =
  current :: jsnum
  pages :: jsnum
  total :: nat

record list_response =
  alerts :: "alert list"
  pagination :: pagination

definition list_alerts :: "clock \<Rightarrow> list_query \<Rightarrow> store \<Rightarrow> http_error + list_response" where
  "list_alerts clk q db =
     (let limit = with_default (q_limit q) (Number (Num 20));
          page = with_default (q_page q) (Number (Num 1))
      in case parse_sort (sort_of q) of
           None \<Rightarrow> Inl ServerError
         | Some ks \<Rightarrow>
             (case mongo_find (list_conditions clk q) ks
                     (Some (js_mul (to_number limit) (Num 1)))
                     (Some (js_mul (js_sub (to_number page) (Num 1)) (to_number limit))) db of
                Inl e \<Rightarrow> Inl ServerError
              | Inr docs \<Rightarrow>
                  (case countDocuments (list_filter clk q) db of
                     Inl e \<Rightarrow> Inl ServerError
                   | Inr n \<Rightarrow>
                       Inr \<lparr> alerts = docs,
                             pagination =
                               \<lparr> current = parseInt page,
                                 pages = js_ceil (js_div (Num (real n)) (to_number limit)),
                                 total = n \<rparr> \<rparr>)))"

subsection \<open>GET /api/alerts/location/:lat/:lng\<close>

record location_query =
  lq_radius :: "string option"
  lq_type :: "string option"
  lq_severity :: "string option"

text \<open>
  Lines 249 to 262. The object literal reads the clock twice, once for each bound of the
  validity window.
\<close>

definition location_filter :: "clock \<Rightarrow> string \<Rightarrow> string \<Rightarrow> location_query \<Rightarrow> alert_filter" where
  "location_filter clk lat lng q =
     \<lparr> f_isPublic = Some True,
       f_type = (if truthy (lq_type q) then lq_type q else None),
       f_severity = (if truthy (lq_severity q) then lq_severity q else None),
       f_status = Some ''active'',
       f_validFrom_lte = Some (clk 0),
       f_validUntil_gte = Some (clk 1),
       f_location =
         Some (parseFloat (Str lng), parseFloat (Str lat),
               js_div (parseFloat (with_default (lq_radius q) (Number (Num 50)))) (Num 6371)) \<rparr>"

definition alerts_by_location ::
  "clock \<Rightarrow> string \<Rightarrow> string \<Rightarrow> location_query \<Rightarrow> store \<Rightarrow> http_error + alert list" where
  "alerts_by_location clk lat lng q db =
     (case mongo_find (location_filter clk lat lng q) [(''severity'', - 1), (''createdAt'', - 1)]
             (Some (Num 50)) None db of
        Inl e \<Rightarrow> Inl ServerError
      | Inr docs \<Rightarrow> Inr docs)"

subsection \<open>GET /api/alerts/:id\<close>

definition replace_doc :: "alert \<Rightarrow> store \<Rightarrow> store" where
  "replace_doc a db = map (\<lambda>d. if alert_id d = alert_id a then a else d) db"

text \<open>
  Lines 90 to 108: the document is looked up by id alone, its view counter is
  incremented and it is saved.
\<close>

definition get_alert :: "nat \<Rightarrow> store \<Rightarrow> (http_error + alert) \<times> store" where
  "get_alert i db =
     (case findById i db of
        None \<Rightarrow> (Inl NotFound, db)
      | Some a \<Rightarrow>
          (let a' = a\<lparr>views := views a + 1\<rparr>
           in (Inr a', replace_doc a' db)))"

subsection \<open>The mutation gate\<close>

record identity =
  user_id :: nat
  role :: string

text \<open>
  Modelled from the spec: the middleware \<^verbatim>\<open>protect\<close> and \<^verbatim>\<open>authorize\<close> of
  \<^verbatim>\<open>middleware/auth\<close> is not among the sources. The spec (4.5) says that a mutation
  needs a caller identity with the elevated role and that an absent identity or an
  insufficient role fails with Forbidden. The caller is \<open>None\<close> when the request carries no
  identity.
\<close>

definition protect :: "identity option \<Rightarrow> http_error + identity" where
  "protect caller = (case caller of None \<Rightarrow> Inl Forbidden | Some u \<Rightarrow> Inr u)"

definition authorize :: "string list \<Rightarrow> identity \<Rightarrow> http_error + identity" where
  "authorize roles u = (if role u \<in> set roles then Inr u else Inl Forbidden)"

text \<open>
  An Express route \<^verbatim>\<open>protect, authorize('admin'), handler\<close>: the handler runs only after
  both middleware functions have passed the request on; otherwise the response is theirs
  and the store is not touched.
\<close>

definition admin_only ::
  "identity option \<Rightarrow> store \<Rightarrow> (identity \<Rightarrow> (http_error + 'r) \<times> store) \<Rightarrow> (http_error + 'r) \<times> store" where
  "admin_only caller db handler =
     (case protect caller of
        Inl e \<Rightarrow> (Inl e, db)
      | Inr u \<Rightarrow>
          (case authorize [''admin''] u of
             Inl e \<Rightarrow> (Inl e, db)
           | Inr u' \<Rightarrow> handler u'))"

subsection \<open>POST, PUT and DELETE\<close>

text \<open>
  A JSON request body: each top-level key of an alert that a client can send, absent
  (\<open>None\<close>) or present. The keys the store maintains itself (\<^verbatim>\<open>_id\<close> and
  \<^verbatim>\<open>createdAt\<close>) are not part of a body in this model.
\<close>

record body =
  b_title :: "string option"
  b_description :: "string option"
  b_type :: "string option"
  b_severity :: "string option"
  b_status :: "string option"
  b_location :: "location option"
  b_validFrom :: "int option"
  b_validUntil :: "int option"
  b_isPublic :: "bool option"
  b_createdBy :: "nat option"
  b_updatedBy :: "nat option"
  b_views :: "nat option"

text \<open>\<^verbatim>\<open>x || y\<close> on an optional number: \<open>y\<close> when \<open>x\<close> is absent or 0.\<close>

definition or_else :: "real option \<Rightarrow> real option \<Rightarrow> real option" where
  "or_else x y = (case x of None \<Rightarrow> y | Some r \<Rightarrow> if r = 0 then y else Some r)"

text \<open>
  The location literal of lines 126 to 134 and 176 to 184: every part is read from the
  body's location, the radius falls back to \<open>fallback\<close>.
\<close>

definition rebuild_location :: "location \<Rightarrow> real option \<Rightarrow> location" where
  "rebuild_location l fallback =
     \<lparr> coordinates = coordinates l,
       address = address l,
       city = city l,
       state = state l,
       country = country l,
       radius = or_else (radius l) fallback \<rparr>"

text \<open>Lines 169 to 185: the update document.\<close>

definition update_data :: "identity \<Rightarrow> alert \<Rightarrow> body \<Rightarrow> body" where
  "update_data u a b =
     (case b_location b of
        None \<Rightarrow> b\<lparr>b_updatedBy := Some (user_id u)\<rparr>
      | Some l \<Rightarrow>
          b\<lparr>b_updatedBy := Some (user_id u),
            b_location := Some (rebuild_location l (radius (location a)))\<rparr>)"

text \<open>
  Mongoose sends an update document without operators as \<^verbatim>\<open>$set\<close>: each key that is
  present replaces the document's value, the other keys are left alone.
\<close>

definition apply_set :: "body \<Rightarrow> alert \<Rightarrow> alert" where
  "apply_set b a =
     a\<lparr> title := (case b_title b of None \<Rightarrow> title a | Some v \<Rightarrow> v),
        description := (case b_description b of None \<Rightarrow> description a | Some v \<Rightarrow> v),
        type := (case b_type b of None \<Rightarrow> type a | Some v \<Rightarrow> v),
        severity := (case b_severity b of None \<Rightarrow> severity a | Some v \<Rightarrow> v),
        status := (case b_status b of None \<Rightarrow> status a | Some v \<Rightarrow> v),
        location := (case b_location b of None \<Rightarrow> location a | Some v \<Rightarrow> v),
        validFrom := (case b_validFrom b of None \<Rightarrow> validFrom a | Some v \<Rightarrow> v),
        validUntil := (case b_validUntil b of None \<Rightarrow> validUntil a | Some v \<Rightarrow> v),
        isPublic := (case b_isPublic b of None \<Rightarrow> isPublic a | Some v \<Rightarrow> v),
        createdBy := (case b_createdBy b of None \<Rightarrow> createdBy a | Some v \<Rightarrow> v),
        updatedBy := (case b_updatedBy b of None \<Rightarrow> updatedBy a | Some v \<Rightarrow> Some v),
        views := (case b_views b of None \<Rightarrow> views a | Some v \<Rightarrow> v) \<rparr>"

text \<open>
  \<^verbatim>\<open>findByIdAndUpdate(id, data, {new: true, runValidators: true})\<close>. The schema's
  validators are a parameter (\<open>valid\<close>); a rejected update throws and writes nothing.
\<close>

definition findByIdAndUpdate ::
  "(body \<Rightarrow> bool) \<Rightarrow> nat \<Rightarrow> body \<Rightarrow> store \<Rightarrow> (mongo_error + alert option) \<times> store" where
  "findByIdAndUpdate valid i b db =
     (if \<not> valid b then (Inl MongoError, db)
      else case findById i db of
             None \<Rightarrow> (Inr None, db)
           | Some a \<Rightarrow>
               (let a' = apply_set b a
                in (Inr (Some a'), replace_doc a' db)))"

text \<open>Lines 158 to 205, the handler behind the gate.\<close>

definition update_handler ::
  "(body \<Rightarrow> bool) \<Rightarrow> nat \<Rightarrow> body \<Rightarrow> store \<Rightarrow> identity \<Rightarrow> (http_error + alert option) \<times> store" where
  "update_handler valid i b db u =
     (case findById i db of
        None \<Rightarrow> (Inl NotFound, db)
      | Some a \<Rightarrow>
          (case findByIdAndUpdate valid i (update_data u a b) db of
             (Inl e, db') \<Rightarrow> (Inl ServerError, db')
           | (Inr r, db') \<Rightarrow> (Inr r, db')))"

definition update_alert ::
  "(body \<Rightarrow> bool) \<Rightarrow> identity option \<Rightarrow> nat \<Rightarrow> body \<Rightarrow> store \<Rightarrow> (http_error + alert option) \<times> store" where
  "update_alert valid caller i b db = admin_only caller db (update_handler valid i b db)"

text \<open>
  Lines 122 to 151. Reading \<^verbatim>\<open>req.body.location.coordinates\<close> throws when the body has
  no location. The schema is a parameter: \<open>schema d\<close> is the document Mongoose builds
  from the data \<open>d\<close> (defaults applied), or \<open>None\<close> when validation rejects it. The new
  document gets an id that no stored document has. Modelled from the spec: the sources
  do not hold the schema that fills in \<^verbatim>\<open>createdAt\<close>; the spec (3) has the store
  maintain it, so the new document is stamped with the clock.
\<close>

definition create_data :: "identity \<Rightarrow> body \<Rightarrow> body option" where
  "create_data u b =
     (case b_location b of
        None \<Rightarrow> None
      | Some l \<Rightarrow>
          Some (b\<lparr>b_createdBy := Some (user_id u),
                  b_location := Some (rebuild_location l (Some 50))\<rparr>))"

definition fresh_id :: "store \<Rightarrow> nat" where
  "fresh_id db = Suc (foldr max (map alert_id db) 0)"

definition create_handler ::
  "(body \<Rightarrow> alert option) \<Rightarrow> clock \<Rightarrow> body \<Rightarrow> store \<Rightarrow> identity \<Rightarrow> (http_error + alert) \<times> store" where
  "create_handler schema clk b db u =
     (case create_data u b of
        None \<Rightarrow> (Inl ServerError, db)
      | Some d \<Rightarrow>
          (case schema d of
             None \<Rightarrow> (Inl ServerError, db)
           | Some a \<Rightarrow>
               (let a' = a\<lparr>alert_id := fresh_id db, createdAt := clk 0\<rparr>
                in (Inr a', db @ [a']))))"

text \<open>
  The route is \<^verbatim>\<open>protect, authorize('admin'), validateAlertCreation, handler\<close>. The
  validation middleware is not among the sources; it is the parameter \<open>validate\<close>, and a
  body it rejects is answered with a client error.
\<close>

definition create_alert ::
  "(body \<Rightarrow> bool) \<Rightarrow> (body \<Rightarrow> alert option) \<Rightarrow> clock \<Rightarrow> identity option \<Rightarrow> body \<Rightarrow> store
     \<Rightarrow> (http_error + alert) \<times> store" where
  "create_alert validate schema clk caller b db =
     admin_only caller db
       (\<lambda>u. if validate b then create_handler schema clk b db u else (Inl BadRequest, db))"

text \<open>Lines 212 to 234.\<close>

definition delete_handler :: "nat \<Rightarrow> store \<Rightarrow> identity \<Rightarrow> (http_error + unit) \<times> store" where
  "delete_handler i db u =
     (case findById i db of
        None \<Rightarrow> (Inl NotFound, db)
      | Some a \<Rightarrow> (Inr (), filter (\<lambda>d. alert_id d \<noteq> i) db))"

definition delete_alert :: "identity option \<Rightarrow> nat \<Rightarrow> store \<Rightarrow> (http_error + unit) \<times> store" where
  "delete_alert caller i db = admin_only caller db (delete_handler i db)"

subsection \<open>GET /api/alerts/stats/overview\<close>

text \<open>
  A \<^verbatim>\<open>$count\<close> stage yields one document holding the count, and none at all when its
  input is empty. A \<^verbatim>\<open>$group\<close> stage with \<^verbatim>\<open>$sum: 1\<close> yields one document per distinct
  key; they are listed in the order in which the keys first occur.
\<close>

definition count_stage :: "alert list \<Rightarrow> nat list" where
  "count_stage xs = (if xs = [] then [] else [length xs])"

definition group_count :: "(alert \<Rightarrow> string) \<Rightarrow> alert list \<Rightarrow> (string \<times> nat) list" where
  "group_count key xs =
     map (\<lambda>k. (k, length (filter (\<lambda>a. key a = k) xs))) (rev (remdups (rev (map key xs))))"

record stats =
  totalAlerts :: "nat list"
  activeAlerts :: "nat list"
  alertsByType :: "(string \<times> nat) list"
  alertsBySeverity :: "(string \<times> nat) list"
  recentAlerts :: "nat list"

text \<open>
  Lines 287 to 331: \<^verbatim>\<open>now\<close> is the first read of the clock; the cut-off of the recent
  facet is computed from \<^verbatim>\<open>Date.now()\<close>, a second read.
\<close>

definition stats_handler :: "clock \<Rightarrow> store \<Rightarrow> stats" where
  "stats_handler clk db =
     (let now = clk 0
      in \<lparr> totalAlerts = count_stage db,
            activeAlerts =
              count_stage (filter (\<lambda>a. status a = ''active'' \<and> validFrom a \<le> now \<and> now \<le> validUntil a) db),
            alertsByType = group_count type db,
            alertsBySeverity = group_count severity db,
            recentAlerts =
              count_stage (filter (\<lambda>a. clk 1 - 7 * 24 * 60 * 60 * 1000 \<le> createdAt a) db) \<rparr>)"

definition stats_overview :: "clock \<Rightarrow> identity option \<Rightarrow> store \<Rightarrow> (http_error + stats) \<times> store" where
  "stats_overview clk caller db = admin_only caller db (\<lambda>u. (Inr (stats_handler clk db), db))"

subsection \<open>Safe integers\<close>


subsection \<open>Sample data\<close>

definition clock_at :: "int \<Rightarrow> clock" where
  "clock_at t k = t"

definition ticking :: "int \<Rightarrow> clock" where
  "ticking t k = t + int k"

definition origin :: location where
  "origin = \<lparr> coordinates = Some (0, 0), address = Some ''Quay 1'', city = Some ''Harbour'',
              state = None, country = None, radius = Some 12 \<rparr>"

definition river_alert :: alert where
  "river_alert =
     \<lparr> alert_id = 1, title = ''River flood'', description = ''Water level rising'',
       type = ''flood'', severity = ''critical'', status = ''active'', location = origin,
       validFrom = 1000, validUntil = 2000, isPublic = True, createdBy = 7,
       updatedBy = None, views = 0, createdAt = 900 \<rparr>"

definition drizzle_alert :: alert where
  "drizzle_alert =
     river_alert\<lparr> alert_id := 2, title := ''Drizzle'', type := ''severe_weather'',
                  severity := ''low'', createdAt := 950 \<rparr>"

definition resolved_alert :: alert where
  "resolved_alert = river_alert\<lparr> status := ''resolved'' \<rparr>"

definition internal_alert :: alert where
  "internal_alert = river_alert\<lparr> alert_id := 3, isPublic := False \<rparr>"

definition no_params :: list_query where
  "no_params =
     \<lparr> q_type = None, q_severity = None, q_status = None, q_lat = None, q_lng = None,
       q_radius = None, q_limit = None, q_page = None, q_sort = None \<rparr>"

definition antipode_params :: list_query where
  "antipode_params = no_params\<lparr> q_lat := Some ''0'', q_lng := Some ''180'' \<rparr>"

definition no_location_params :: location_query where
  "no_location_params = \<lparr> lq_radius = None, lq_type = None, lq_severity = None \<rparr>"

definition empty_body :: body where
  "empty_body =
     \<lparr> b_title = None, b_description = None, b_type = None, b_severity = None,
       b_status = None, b_location = None, b_validFrom = None, b_validUntil = None,
       b_isPublic = None, b_createdBy = None, b_updatedBy = None, b_views = None \<rparr>"

definition severity_patch :: body where
  "severity_patch = empty_body\<lparr> b_severity := Some ''high'' \<rparr>"

definition uphill :: location where
  "uphill = \<lparr> coordinates = Some (10, 20), address = None, city = Some ''Uphill'',
              state = None, country = None, radius = None \<rparr>"

definition move_patch :: body where
  "move_patch = empty_body\<lparr> b_location := Some uphill \<rparr>"

definition moved_alert :: alert where
  "moved_alert =
     river_alert\<lparr> location := uphill\<lparr> radius := Some 12 \<rparr>, updatedBy := Some 9 \<rparr>"

definition raised_alert :: alert where
  "raised_alert = river_alert\<lparr> severity := ''high'', updatedBy := Some 9 \<rparr>"

definition epoch_alert :: alert where
  "epoch_alert = river_alert\<lparr> createdAt := 0 \<rparr>"




definition admin :: identity where
  "admin = \<lparr> user_id = 9, role = ''admin'' \<rparr>"

definition visitor :: identity where
  "visitor = \<lparr> user_id = 4, role = ''user'' \<rparr>"

definition accept_all :: "body \<Rightarrow> bool" where
  "accept_all b = True"

definition no_schema :: "body \<Rightarrow> alert option" where
  "no_schema b = None"

section \<open>Verified properties\<close>

subsection \<open>The mutation gate\<close>

text \<open>
  Whatever the handler behind the gate is, a caller without the admin role gets Forbidden
  and the store comes back as it was: the handler is never applied.
\<close>

lemma admin_only_forbidden:
  assumes "case caller of None \<Rightarrow> True | Some u \<Rightarrow> role u \<noteq> ''admin''"
  shows "admin_only caller db handler = (Inl Forbidden, db)"
  using assms by (auto simp: admin_only_def protect_def authorize_def split: option.splits)

text \<open>
  C7. A Create, Update or Delete call whose caller identity is absent or does not have the
  admin role fails with Forbidden, for every store, body, id, validator and schema, and
  returns the store unchanged. The answer does not depend on the store, so it is given
  before the store is consulted: an unknown id is answered with Forbidden as well, not
  with NotFound.
\<close>

theorem mutation_forbidden_without_admin:
  assumes "case caller of None \<Rightarrow> True | Some u \<Rightarrow> role u \<noteq> ''admin''"
  shows "create_alert validate schema clk caller b db = (Inl Forbidden, db)
       \<and> update_alert valid caller i b db = (Inl Forbidden, db)
       \<and> delete_alert caller i db = (Inl Forbidden, db)"
  using assms
  by (simp add: create_alert_def update_alert_def delete_alert_def admin_only_forbidden)

theorem mutation_forbidden_without_admin_witness:
  "(case Some visitor of None \<Rightarrow> True | Some u \<Rightarrow> role u \<noteq> ''admin'')
   \<and> create_alert accept_all no_schema (clock_at 1500) (Some visitor) severity_patch [river_alert]
       = (Inl Forbidden, [river_alert])
   \<and> update_alert accept_all (Some visitor) 1 severity_patch [river_alert]
       = (Inl Forbidden, [river_alert])
   \<and> delete_alert (Some visitor) 1 [river_alert] = (Inl Forbidden, [river_alert])"
proof -
  have h: "case Some visitor of None \<Rightarrow> True | Some u \<Rightarrow> role u \<noteq> ''admin''"
    by (simp add: visitor_def)
  show ?thesis
    using h mutation_forbidden_without_admin [OF h] by simp
qed

subsection \<open>Rounding to a double\<close>

lemma round_even_of_int: "round_even (of_int m) = m"
  by (simp add: round_even_def)

lemma floor_log2_bounds:
  assumes "0 < x" and "2 powi e \<le> x" and "x < 2 powi (e + 1)"
  shows "\<lfloor>log 2 x\<rfloor> = e"
proof -
  have lo: "(2::real) powr of_int e = 2 powi e"
    by (simp add: powr_real_of_int')
  have hi: "(2::real) powr (of_int e + 1) = 2 powi (e + 1)"
    using powr_real_of_int' [of 2 "e + 1"] by simp
  show ?thesis
    using assms by (simp add: floor_log_eq_powr_iff lo hi)
qed

text \<open>Safe integers are doubles.\<close>

lemma fl_int:
  assumes "\<bar>n\<bar> < 2 ^ 53"
  shows "fl (of_int n) = Num (of_int n)"
proof (cases "n = 0")
  case True
  then show ?thesis by (simp add: fl_def)
next
  case False
  define a where "a = \<bar>n\<bar>"
  have a: "1 \<le> a" "a < 2 ^ 53"
    using False assms by (simp_all add: a_def)
  have a53: "(of_int a :: real) < 2 ^ 53"
    using a(2) by (metis of_int_less_numeral_power_cancel_iff)
  define e where "e = \<lfloor>log 2 (of_int a)\<rfloor>"
  have "0 \<le> log 2 (of_int a)"
    using a(1) by simp
  then have e0: "0 \<le> e"
    by (simp add: e_def)
  have "(of_int a :: real) < 2 powr 53"
    using a53 by simp
  then have "log 2 (of_int a) < 53"
    using a(1) by (simp add: log_less_iff)
  then have e52: "e \<le> 52"
    by (simp add: e_def floor_le_iff)
  define k where "k = nat (52 - e)"
  have u: "(2::real) powi (e - 52) = 1 / 2 ^ k"
    using e52 by (simp add: k_def power_int_def power_one_over)
  have q: "of_int a / (2 powi (e - 52)) = (of_int (a * 2 ^ k) :: real)"
    by (simp add: u)
  have abs: "\<bar>of_int n :: real\<bar> = of_int a"
    by (simp add: a_def)
  have small: "\<not> (2 ^ 1024 \<le> (of_int a :: real))"
    using a53 by (simp add: not_le less_le_trans [where y = "2 ^ 53"])
  have val: "of_int (round_even (of_int a / (2 powi (e - 52)))) * (2 powi (e - 52))
      = (of_int a :: real)"
    unfolding q round_even_of_int by (simp add: u)
  have emax: "max e (- 1022) = e"
    using e0 by simp
  show ?thesis
    using False small
    unfolding fl_def abs Let_def e_def [symmetric] emax val
    by (auto simp: a_def)
qed

lemma fl_numeral: "(numeral w :: int) < 2 ^ 53 \<Longrightarrow> fl (numeral w) = Num (numeral w)"
  using fl_int [of "numeral w"] by simp

lemma fl_neg_numeral: "(numeral w :: int) < 2 ^ 53 \<Longrightarrow> fl (- numeral w) = Num (- numeral w)"
  using fl_int [of "- numeral w"] by simp

lemma fl_0: "fl 0 = Num 0"
  by (simp add: fl_def)

lemma fl_1: "fl 1 = Num 1"
  using fl_int [of 1] by simp

lemma fl_minus_1: "fl (- 1) = Num (- 1)"
  using fl_int [of "- 1"] by simp

text \<open>The double of a positive real in the normal range, from its binary exponent.\<close>

lemma fl_normal:
  assumes "0 < x" and "2 powi e \<le> x" and "x < 2 powi (e + 1)" and "- 1022 \<le> e"
    and "y = of_int (round_even (x / 2 powi (e - 52))) * 2 powi (e - 52)"
    and "y < 2 ^ 1024"
  shows "fl x = Num y"
proof -
  have "\<lfloor>log 2 \<bar>x\<bar>\<rfloor> = e"
    using assms(1-3) floor_log2_bounds [of x e] by simp
  then show ?thesis
    using assms(1,4,5,6) by (simp add: fl_def Let_def max_def)
qed

text \<open>\<open>1 / 20\<close> is the double \<^verbatim>\<open>0x1.999999999999ap-5\<close>, \<open>50 / 6371\<close> is \<^verbatim>\<open>0x1.012a4fcd35b93p-7\<close>.\<close>

lemma fl_one_twentieth: "fl (1 / 20) = Num (7205759403792794 / 2 ^ 57)"
  by (rule fl_normal [where e = "- 5"]) (simp_all add: round_even_def)

lemma fl_50_6371: "fl (50 / 6371) = Num (4524099453016979 / 2 ^ 59)"
  by (rule fl_normal [where e = "- 7"]) (simp_all add: round_even_def)

lemmas fl_simps = fl_numeral fl_neg_numeral fl_0 fl_1 fl_minus_1 fl_one_twentieth fl_50_6371

subsection \<open>Evaluation lemmas\<close>

lemmas parse_defs = to_number_def parseFloat_def parseInt_def signed_literal_def
  unsigned_literal_def mantissa_def exponent_part_def to_double_def trim_def radix_literal_def
  radix_of_def is_digit_def is_digit_of_def is_space_def digit_val_def

lemma parse_sort_default: "parse_sort ''-createdAt'' = Some [(''createdAt'', - 1)]"
  by (simp add: parse_sort_def sort_key_def)

lemmas list_defs = list_alerts_def mongo_find_def countDocuments_def list_conditions_def
  list_filter_def status_of_def sort_of_def with_default_def truthy_def matches_def
  apply_skip_def apply_limit_def mongo_sort_def is_integer_def

lemmas location_defs = alerts_by_location_def location_filter_def mongo_find_def
  with_default_def truthy_def matches_def apply_skip_def apply_limit_def mongo_sort_def
  is_integer_def

lemma central_angle_same: "central_angle p p = 0"
  by (simp add: central_angle_def radians_def)

lemma central_angle_antipode: "central_angle (180, 0) (0, 0) = pi"
  by (simp add: central_angle_def radians_def)

lemma ceiling_one_twentieth: "\<lceil>7205759403792794 / 2 ^ 57 :: real\<rceil> = 1"
  by (rule ceiling_unique) simp_all

subsection \<open>What a find returns\<close>

lemma set_insort_by: "set (insort_by le x xs) = insert x (set xs)"
  by (induction xs) auto

lemma set_mongo_sort: "set (mongo_sort ks xs) = set xs"
  by (induction xs) (simp_all add: mongo_sort_def set_insort_by)

lemma mongo_find_matches:
  assumes "mongo_find f ks l s db = Inr xs" and "a \<in> set xs"
  shows "a \<in> set db \<and> matches f a"
proof -
  obtain ys where ys: "apply_skip s (mongo_sort ks (filter (matches f) db)) = Inr ys"
    and xs: "apply_limit l ys = Inr xs"
    using assms(1) by (auto simp: mongo_find_def split: if_splits sum.splits)
  have "set xs \<subseteq> set ys"
    using xs
    by (auto simp: apply_limit_def split: option.splits jsnum.splits if_splits
        dest: in_set_takeD)
  moreover have "set ys \<subseteq> set (mongo_sort ks (filter (matches f) db))"
    using ys
    by (auto simp: apply_skip_def split: option.splits jsnum.splits if_splits
        dest: in_set_dropD)
  ultimately show ?thesis
    using assms(2) by (auto simp: set_mongo_sort)
qed

subsection \<open>The list filter\<close>

text \<open>
  C1, as the claim states it, fails: the handler sets \<^verbatim>\<open>filter.status = status\<close> and then
  adds the two date bounds, so the stored status is tested together with the window. A
  public alert whose window contains the current instant but whose stored status is
  \<^verbatim>\<open>resolved\<close> satisfies everything the claim asks for, and the default List query does
  not return it.
\<close>

theorem list_active_window_alone_counterexample:
  "isPublic resolved_alert
   \<and> validFrom resolved_alert \<le> clock_at 1500 0 \<and> clock_at 1500 0 \<le> validUntil resolved_alert
   \<and> status_of no_params = ''active''
   \<and> matches (list_filter (clock_at 1500) no_params) resolved_alert = False
   \<and> list_alerts (clock_at 1500) no_params [resolved_alert]
       = Inr \<lparr> alerts = [], pagination = \<lparr> current = Num 1, pages = Num 0, total = 0 \<rparr> \<rparr>"
  by (simp add: list_defs parse_defs parse_sort_default resolved_alert_def river_alert_def
      no_params_def clock_at_def fl_simps)

text \<open>
  C1, amended. For a List query with \<^verbatim>\<open>status\<close> absent or equal to \<^verbatim>\<open>active\<close>, an alert
  satisfies the filter iff it is public, has the requested type and severity (when these
  are given and not empty), its stored status is \<^verbatim>\<open>active\<close>, and the instant read from the
  clock lies in its validity window: the window test is conjoined with the stored-status
  test.
\<close>

theorem list_active_filter:
  assumes "status_of q = ''active''"
  shows "matches (list_filter clk q) a =
           (isPublic a
            \<and> (if truthy (q_type q) then Some (type a) = q_type q else True)
            \<and> (if truthy (q_severity q) then Some (severity a) = q_severity q else True)
            \<and> status a = ''active''
            \<and> validFrom a \<le> clk 0 \<and> clk 0 \<le> validUntil a)"
  using assms by (auto simp: matches_def list_filter_def truthy_def split: option.splits)

theorem list_active_filter_witness:
  "status_of no_params = ''active''
   \<and> matches (list_filter (clock_at 1500) no_params) river_alert
   \<and> isPublic river_alert \<and> status river_alert = ''active''
   \<and> validFrom river_alert \<le> clock_at 1500 0 \<and> clock_at 1500 0 \<le> validUntil river_alert"
proof -
  have h: "status_of no_params = ''active''"
    by (simp add: status_of_def no_params_def)
  show ?thesis
    using h list_active_filter [OF h, of "clock_at 1500" river_alert]
    by (simp add: truthy_def no_params_def river_alert_def clock_at_def)
qed

subsection \<open>Non-public alerts\<close>

text \<open>List and Get-by-location return public alerts only, whatever the parameters.\<close>

lemma list_alerts_public:
  assumes "list_alerts clk q db = Inr r" and "a \<in> set (alerts r)"
  shows "isPublic a"
proof -
  obtain ks docs where "mongo_find (list_conditions clk q) ks
      (Some (js_mul (to_number (with_default (q_limit q) (Number (Num 20)))) (Num 1)))
      (Some (js_mul (js_sub (to_number (with_default (q_page q) (Number (Num 1)))) (Num 1))
         (to_number (with_default (q_limit q) (Number (Num 20)))))) db = Inr docs"
    and "alerts r = docs"
    using assms(1) by (auto simp: list_alerts_def Let_def split: sum.splits option.splits)
  then have "matches (list_conditions clk q) a"
    using assms(2) mongo_find_matches by blast
  then show ?thesis
    by (auto simp: matches_def list_conditions_def list_filter_def
        split: if_splits option.splits)
qed

lemma alerts_by_location_public:
  assumes "alerts_by_location clk lat lng q db = Inr xs" and "a \<in> set xs"
  shows "isPublic a"
proof -
  have "mongo_find (location_filter clk lat lng q) [(''severity'', - 1), (''createdAt'', - 1)]
          (Some (Num 50)) None db = Inr xs"
    using assms(1) by (auto simp: alerts_by_location_def split: sum.splits)
  then have "matches (location_filter clk lat lng q) a"
    using assms(2) mongo_find_matches by blast
  then show ?thesis
    by (simp add: matches_def location_filter_def)
qed

text \<open>
  C2, at the failing input. Get-by-id looks the document up by its id and nothing else:
  for a store that holds one alert with \<^verbatim>\<open>isPublic = false\<close>, the public route returns
  that alert (and counts the view).
\<close>

theorem get_alert_returns_non_public:
  "isPublic internal_alert = False
   \<and> get_alert 3 [internal_alert]
       = (Inr (internal_alert\<lparr>views := 1\<rparr>), [internal_alert\<lparr>views := 1\<rparr>])"
  by (simp add: get_alert_def findById_def replace_doc_def internal_alert_def river_alert_def
      Let_def)

subsection \<open>Pagination totals\<close>

text \<open>
  C3, at the failing input. The store holds one public, active alert at longitude 0,
  latitude 0; the query asks for alerts within the default 50 km of longitude 180,
  latitude 0, the antipode. No alert is returned, and the reported total is 1 and the
  page count 1: the count is taken with the filter object, which does not hold the spatial
  condition.
\<close>

theorem list_total_ignores_location:
  "list_alerts (clock_at 1500) antipode_params [river_alert]
     = Inr \<lparr> alerts = [], pagination = \<lparr> current = Num 1, pages = Num 1, total = 1 \<rparr> \<rparr>"
  using pi_gt_zero pi_ge_two
  by (simp add: list_defs parse_defs parse_sort_default antipode_params_def no_params_def
      river_alert_def origin_def clock_at_def geo_within_def center_sphere_ok_def
      central_angle_antipode ceiling_one_twentieth fl_simps)

subsection \<open>Order of the alerts near a location\<close>

text \<open>
  C4, at the failing input. Severity is a string, and \<^verbatim>\<open>sort({severity: -1, ...})\<close>
  orders strings by their characters. With a critical and a low alert at the queried
  point, both public and active, the low one is listed first.
\<close>

theorem by_location_orders_severity_as_text:
  "alerts_by_location (clock_at 1500) ''0'' ''0'' no_location_params [river_alert, drizzle_alert]
     = Inr [drizzle_alert, river_alert]
   \<and> severity drizzle_alert = ''low'' \<and> severity river_alert = ''critical''"
  by (simp add: location_defs parse_defs no_location_params_def drizzle_alert_def
      river_alert_def origin_def clock_at_def geo_within_def center_sphere_ok_def
      central_angle_same field_cmp_def int_cmp_def fl_simps)

text \<open>
  What the handler does guarantee about the pagination block: the total is the number of
  stored alerts that satisfy the filter object, and the page count is the ceiling of the
  total divided by the limit as supplied.
\<close>

lemma list_alerts_total:
  assumes "list_alerts clk q db = Inr r"
  shows "total (pagination r) = length (filter (matches (list_filter clk q)) db)
       \<and> pages (pagination r) =
           js_ceil (js_div (Num (real (total (pagination r))))
                      (to_number (with_default (q_limit q) (Number (Num 20)))))"
  using assms
  by (auto simp: list_alerts_def countDocuments_def list_filter_def Let_def
      split: sum.splits if_splits option.splits)

text \<open>
  What Get-by-location does guarantee: at most 50 alerts, each public, with stored status
  \<^verbatim>\<open>active\<close> and with the two clock readings inside its window.
\<close>

lemma alerts_by_location_restricted:
  assumes "alerts_by_location clk lat lng q db = Inr xs"
  shows "length xs \<le> 50"
    and "a \<in> set xs \<Longrightarrow>
           isPublic a \<and> status a = ''active'' \<and> validFrom a \<le> clk 0 \<and> clk 1 \<le> validUntil a"
proof -
  have found: "mongo_find (location_filter clk lat lng q)
      [(''severity'', - 1), (''createdAt'', - 1)] (Some (Num 50)) None db = Inr xs"
    using assms by (auto simp: alerts_by_location_def split: sum.splits)
  then show "length xs \<le> 50"
    by (auto simp: mongo_find_def apply_skip_def apply_limit_def is_integer_def
        split: if_splits sum.splits)
  show "isPublic a \<and> status a = ''active'' \<and> validFrom a \<le> clk 0 \<and> clk 1 \<le> validUntil a"
    if "a \<in> set xs"
  proof -
    have "matches (location_filter clk lat lng q) a"
      using found that mongo_find_matches by blast
    then show ?thesis
      by (simp add: matches_def location_filter_def)
  qed
qed

subsection \<open>Malformed paging parameters\<close>

lemma to_number_Number: "to_number (Number n) = n"
  by (simp add: to_number_def)






subsection \<open>Statistics\<close>

text \<open>
  C6, at the failing input. The clock advances by one millisecond between the two reads.
  An alert created exactly seven days before the captured \<^verbatim>\<open>now\<close> lies in the seven-day
  window of that instant, and the recent facet leaves it out because its cut-off comes
  from the second read; with a clock that stands still the alert is counted.
\<close>

theorem stats_reads_clock_twice:
  "ticking 604800000 0 - 7 * 24 * 60 * 60 * 1000 \<le> createdAt epoch_alert
   \<and> recentAlerts (stats_handler (ticking 604800000) [epoch_alert]) = []
   \<and> recentAlerts (stats_handler (clock_at 604800000) [epoch_alert]) = [1]
   \<and> stats_overview (ticking 604800000) (Some admin) [epoch_alert]
       = (Inr \<lparr> totalAlerts = [1], activeAlerts = [], alertsByType = [(''flood'', 1)],
                 alertsBySeverity = [(''critical'', 1)], recentAlerts = [] \<rparr>, [epoch_alert])"
  by (simp add: stats_overview_def admin_only_def protect_def authorize_def admin_def
      stats_handler_def count_stage_def group_count_def ticking_def clock_at_def
      epoch_alert_def river_alert_def)

subsection \<open>Updates\<close>

lemma findById_id: "findById i db = Some a \<Longrightarrow> alert_id a = i"
  by (auto simp: findById_def find_Some_iff)

lemma findById_replace_doc:
  "findById i db = Some a \<Longrightarrow> alert_id a' = i \<Longrightarrow> findById i (replace_doc a' db) = Some a'"
  by (induction db) (auto simp: findById_def replace_doc_def split: if_splits)

text \<open>A successful update was made by an admin and wrote the \<^verbatim>\<open>$set\<close> of the update data.\<close>

lemma update_alert_success:
  assumes "findById i db = Some a"
    and "update_alert valid (Some u) i b db = (Inr (Some a'), db')"
  shows "a' = apply_set (update_data u a b) a
       \<and> db' = replace_doc a' db \<and> role u = ''admin''"
  using assms
  by (auto simp: update_alert_def admin_only_def protect_def authorize_def update_handler_def
      findByIdAndUpdate_def Let_def split: if_splits)

lemmas update_defs = update_alert_def admin_only_def protect_def authorize_def
  update_handler_def findByIdAndUpdate_def findById_def replace_doc_def update_data_def
  apply_set_def rebuild_location_def or_else_def Let_def

lemma update_move_patch:
  "update_alert accept_all (Some admin) 1 move_patch [river_alert]
     = (Inr (Some moved_alert), [moved_alert])"
  by (simp add: update_defs accept_all_def admin_def move_patch_def uphill_def
      empty_body_def river_alert_def origin_def moved_alert_def)

lemma update_severity_patch:
  "update_alert accept_all (Some admin) 1 severity_patch [river_alert]
     = (Inr (Some raised_alert), [raised_alert])"
  by (simp add: update_defs accept_all_def admin_def severity_patch_def
      empty_body_def river_alert_def raised_alert_def)

text \<open>
  The handler adds \<^verbatim>\<open>updatedBy: req.user._id\<close> to every update document: a patch that
  holds a severity and nothing else also sets \<^verbatim>\<open>updatedBy\<close> to the caller's id.
\<close>

lemma update_stamps_updatedBy:
  "b_updatedBy severity_patch = None
   \<and> update_alert accept_all (Some admin) 1 severity_patch [river_alert]
       = (Inr (Some raised_alert), [raised_alert])
   \<and> updatedBy river_alert = None
   \<and> updatedBy raised_alert = Some 9"
  using update_severity_patch
  by (simp add: severity_patch_def empty_body_def river_alert_def raised_alert_def)

text \<open>
  C8. After a successful Update every top-level field of the alert that the patch does not
  hold keeps its prior value: title, description, type, severity, status, location,
  validFrom, validUntil, isPublic, createdBy and the view counter, as do the id and
  \<^verbatim>\<open>createdAt\<close>, which no patch can hold. So a patch with a severity alone leaves
  location, type, validFrom and validUntil as they were. When the patch has a location
  without a radius, the stored radius stays what it was. The provenance stamp
  \<^verbatim>\<open>updatedBy\<close> is the one field the handler itself puts into every update: it is the
  caller's id afterwards. The updated document is the one the store holds under the id.
\<close>

theorem update_keeps_absent_fields:
  assumes "findById i db = Some a"
    and "update_alert valid (Some u) i b db = (Inr (Some a'), db')"
  shows "(b_title b = None \<longrightarrow> title a' = title a)
       \<and> (b_description b = None \<longrightarrow> description a' = description a)
       \<and> (b_type b = None \<longrightarrow> type a' = type a)
       \<and> (b_severity b = None \<longrightarrow> severity a' = severity a)
       \<and> (b_status b = None \<longrightarrow> status a' = status a)
       \<and> (b_location b = None \<longrightarrow> location a' = location a)
       \<and> (b_validFrom b = None \<longrightarrow> validFrom a' = validFrom a)
       \<and> (b_validUntil b = None \<longrightarrow> validUntil a' = validUntil a)
       \<and> (b_isPublic b = None \<longrightarrow> isPublic a' = isPublic a)
       \<and> (b_createdBy b = None \<longrightarrow> createdBy a' = createdBy a)
       \<and> (b_views b = None \<longrightarrow> views a' = views a)
       \<and> alert_id a' = alert_id a \<and> createdAt a' = createdAt a
       \<and> (\<forall>l. b_location b = Some l \<and> radius l = None
                \<longrightarrow> radius (location a') = radius (location a))
       \<and> updatedBy a' = Some (user_id u)
       \<and> findById i db' = Some a'"
proof -
  have a': "a' = apply_set (update_data u a b) a"
    and db': "db' = replace_doc a' db"
    using update_alert_success [OF assms] by simp_all
  have "alert_id a' = i"
    using a' findById_id [OF assms(1)] by (simp add: apply_set_def)
  then have "findById i db' = Some a'"
    using db' findById_replace_doc [OF assms(1)] by simp
  then show ?thesis
    using a'
    by (auto simp: apply_set_def update_data_def rebuild_location_def or_else_def
        split: option.splits)
qed

theorem update_keeps_absent_fields_witness:
  "findById 1 [river_alert] = Some river_alert
   \<and> update_alert accept_all (Some admin) 1 severity_patch [river_alert]
       = (Inr (Some raised_alert), [raised_alert])
   \<and> b_location severity_patch = None \<and> b_type severity_patch = None
   \<and> b_validFrom severity_patch = None \<and> b_validUntil severity_patch = None
   \<and> location raised_alert = location river_alert \<and> type raised_alert = type river_alert
   \<and> validFrom raised_alert = validFrom river_alert
   \<and> validUntil raised_alert = validUntil river_alert
   \<and> severity raised_alert = ''high''"
proof -
  have h1: "findById 1 [river_alert] = Some river_alert"
    by (simp add: findById_def river_alert_def)
  note h2 = update_severity_patch
  show ?thesis
    using h1 h2 update_keeps_absent_fields [OF h1 h2]
    by (simp add: severity_patch_def empty_body_def raised_alert_def)
qed

text \<open>
  C10. After a successful Update whose patch has a location, the stored location has the
  patch's coordinates, address, city, state and country, so a part the patch leaves out is
  unset afterwards whatever it was before; the radius alone falls back to the prior radius
  (when the patch gives none, or gives 0).
\<close>

theorem update_location_from_patch:
  assumes "findById i db = Some a"
    and "b_location b = Some l"
    and "update_alert valid (Some u) i b db = (Inr (Some a'), db')"
  shows "location a' =
           \<lparr> coordinates = coordinates l, address = address l, city = city l,
             state = state l, country = country l,
             radius = (case radius l of
                         None \<Rightarrow> radius (location a)
                       | Some r \<Rightarrow> if r = 0 then radius (location a) else Some r) \<rparr>
       \<and> findById i db' = Some a'"
proof -
  have a': "a' = apply_set (update_data u a b) a"
    and db': "db' = replace_doc a' db"
    using update_alert_success [OF assms(1,3)] by simp_all
  have "alert_id a' = i"
    using a' findById_id [OF assms(1)] by (simp add: apply_set_def)
  then have "findById i db' = Some a'"
    using db' findById_replace_doc [OF assms(1)] by simp
  moreover have "location a' = rebuild_location l (radius (location a))"
    using a' assms(2) by (simp add: apply_set_def update_data_def)
  ultimately show ?thesis
    by (simp add: rebuild_location_def or_else_def)
qed

theorem update_location_from_patch_witness:
  "findById 1 [river_alert] = Some river_alert
   \<and> b_location move_patch = Some uphill
   \<and> update_alert accept_all (Some admin) 1 move_patch [river_alert]
       = (Inr (Some moved_alert), [moved_alert])
   \<and> address (location river_alert) = Some ''Quay 1''
   \<and> location moved_alert =
       \<lparr> coordinates = Some (10, 20), address = None, city = Some ''Uphill'', state = None,
         country = None, radius = Some 12 \<rparr>
   \<and> findById 1 [moved_alert] = Some moved_alert"
proof -
  have h1: "findById 1 [river_alert] = Some river_alert"
    by (simp add: findById_def river_alert_def)
  have h2: "b_location move_patch = Some uphill"
    by (simp add: move_patch_def empty_body_def)
  note h3 = update_move_patch
  show ?thesis
    using h1 h2 h3 update_location_from_patch [OF h1 h2 h3]
    by (simp add: river_alert_def origin_def uphill_def)
qed

end
